theory Spec2Isabelle
  imports Main "HOL-Library.Word" "HOL-Library.Sublist"
begin

section \<open>JavaScript strings\<close>

text \<open>
  A JavaScript string is a sequence of UTF-16 code units. \<open>split\<close>, \<open>trim\<close>,
  \<open>includes\<close> and the truthiness test all work on code units, and every character that
  \<open>trim\<close> removes lies in the Basic Multilingual Plane, so a list of 16-bit words is an
  exact model of the strings that \<open>src/index.ts\<close> handles.
\<close>

type_synonym code_unit = "16 word"
type_synonym jsstring = "code_unit list"

text \<open>A string literal of the source, all of whose characters are ASCII.\<close>

definition js :: "string \<Rightarrow> jsstring" where
  "js s = map (\<lambda>c. of_nat (of_char c)) s"

text \<open>The separator \<open>'|'\<close> (U+007C).\<close>

definition pipe :: code_unit where
  "pipe = 0x7C"

text \<open>
  ECMAScript \<open>WhiteSpace\<close>: TAB, VT, FF, ZWNBSP and the code points of category Zs.
\<close>

definition is_white_space :: "code_unit \<Rightarrow> bool" where
  "is_white_space c \<longleftrightarrow>
     c \<in> {0x9, 0xB, 0xC, 0x20, 0xA0, 0x1680, 0x202F, 0x205F, 0x3000, 0xFEFF}
     \<or> (0x2000 \<le> c \<and> c \<le> 0x200A)"

text \<open>ECMAScript \<open>LineTerminator\<close>: LF, CR, LS, PS.\<close>

definition is_line_terminator :: "code_unit \<Rightarrow> bool" where
  "is_line_terminator c \<longleftrightarrow> c \<in> {0xA, 0xD, 0x2028, 0x2029}"

definition is_trimmed :: "code_unit \<Rightarrow> bool" where
  "is_trimmed c \<longleftrightarrow> is_white_space c \<or> is_line_terminator c"

text \<open>\<open>String.prototype.trim\<close>: strip white space and line terminators at both ends.\<close>

definition trimStart :: "jsstring \<Rightarrow> jsstring" where
  "trimStart s = dropWhile is_trimmed s"

definition trimEnd :: "jsstring \<Rightarrow> jsstring" where
  "trimEnd s = rev (dropWhile is_trimmed (rev s))"

definition trim :: "jsstring \<Rightarrow> jsstring" where
  "trim s = trimEnd (trimStart s)"

text \<open>
  \<open>String.prototype.split\<close> with a separator of one code unit and no limit: the string
  is cut at every occurrence of the separator; the result always has at least one element.
  \<open>split_from sep cur s\<close> scans \<open>s\<close> with \<open>cur\<close> the piece collected so far.
\<close>

fun split_from :: "'a \<Rightarrow> 'a list \<Rightarrow> 'a list \<Rightarrow> 'a list list" where
  "split_from sep cur [] = [cur]"
| "split_from sep cur (c # cs) =
     (if c = sep then cur # split_from sep [] cs else split_from sep (cur @ [c]) cs)"

definition split :: "'a \<Rightarrow> 'a list \<Rightarrow> 'a list list" where
  "split sep s = split_from sep [] s"

text \<open>Array indexing \<open>parts[i]\<close>: \<open>undefined\<close> (here \<open>None\<close>) beyond the end.\<close>

fun at :: "'a list \<Rightarrow> nat \<Rightarrow> 'a option" where
  "at [] i = None"
| "at (x # xs) 0 = Some x"
| "at (x # xs) (Suc i) = at xs i"

text \<open>
  Truthiness of a value that is a string, \<open>undefined\<close> or \<open>null\<close>: only a non-empty string
  is truthy. The test looks at the string as it is, before any trimming.
\<close>

fun truthy :: "jsstring option \<Rightarrow> bool" where
  "truthy None = False"
| "truthy (Some s) = (s \<noteq> [])"

text \<open>\<open>v || d\<close> for such a value and a string default.\<close>

fun or_else :: "jsstring option \<Rightarrow> jsstring \<Rightarrow> jsstring" where
  "or_else None d = d"
| "or_else (Some s) d = (if truthy (Some s) then s else d)"

text \<open>\<open>String.prototype.includes\<close>: the needle occurs as a contiguous run of code units.\<close>

fun includes_str :: "'a list \<Rightarrow> 'a list \<Rightarrow> bool" where
  "includes_str [] needle = (needle = [])"
| "includes_str (c # cs) needle = (prefix needle (c # cs) \<or> includes_str cs needle)"

section \<open>Parsing the model's reply (\<open>src/index.ts\<close>, lines 32 to 36)\<close>

text \<open>
  \<^verbatim>\<open>
  const parts = rawText.split('|');
  const sentiment = parts[0] ? parts[0].trim() : "Neutral";
  const summary = parts[1] ? parts[1].trim() : rawText;
  \<close>
  The result is the pair (sentiment, summary).
\<close>

definition parse :: "jsstring \<Rightarrow> jsstring \<times> jsstring" where
  "parse rawText =
     (let parts = split pipe rawText;
          sentiment = (case at parts 0 of
                         None \<Rightarrow> js ''Neutral''
                       | Some p0 \<Rightarrow> if truthy (Some p0) then trim p0 else js ''Neutral'');
          summary = (case at parts 1 of
                       None \<Rightarrow> rawText
                     | Some p1 \<Rightarrow> if truthy (Some p1) then trim p1 else rawText)
      in (sentiment, summary))"

text \<open>
  The reading of the specification: the text before the first separator, and everything
  after the first separator, kept whole.
\<close>

definition before_first_pipe :: "jsstring \<Rightarrow> jsstring" where
  "before_first_pipe raw = takeWhile (\<lambda>c. c \<noteq> pipe) raw"

definition after_first_pipe :: "jsstring \<Rightarrow> jsstring" where
  "after_first_pipe raw = drop 1 (dropWhile (\<lambda>c. c \<noteq> pipe) raw)"

text \<open>
  The text between the first separator and the second one (or the end of the string when
  there is no second separator); empty when there is no separator at all.
\<close>

definition part1 :: "jsstring \<Rightarrow> jsstring" where
  "part1 raw = takeWhile (\<lambda>c. c \<noteq> pipe) (after_first_pipe raw)"

section \<open>The store, the model and the request\<close>

text \<open>
  The table \<open>feedback\<close> of \<open>schema.sql\<close>:
  \<^verbatim>\<open>CREATE TABLE feedback (id INTEGER PRIMARY KEY, customer_text TEXT, sentiment TEXT, summary TEXT)\<close>.
  The three text columns may hold \<open>NULL\<close> (here \<open>None\<close>).
\<close>

record feedback_row =
  row_id :: nat
  customer_text :: "jsstring option"
  sentiment :: "jsstring option"
  summary :: "jsstring option"

text \<open>What the promise returned by \<open>fetch\<close> can reject with.\<close>

datatype error = FormDataError | AiError | DbError

text \<open>
  \<open>env.AI.run\<close> either rejects or resolves to an object whose field \<open>response\<close> is
  declared \<open>response?: string\<close>: a string, or missing (\<open>None\<close>).
\<close>

datatype ai_result = Rejects | Resolves "jsstring option"

datatype db_outcome = Succeeds | Throws

text \<open>
  The world outside the handler: the rows of the table in insertion order, the outcomes
  of the database statements still to come (an exhausted schedule means success), and
  the user contents sent to the model so far.
\<close>

record world =
  feedback :: "feedback_row list"
  db_schedule :: "db_outcome list"
  ai_calls :: "jsstring list"

fun run_statement :: "db_outcome list \<Rightarrow> db_outcome \<times> db_outcome list" where
  "run_statement [] = (Succeeds, [])"
| "run_statement (out # rest) = (out, rest)"

text \<open>
  An \<open>INTEGER PRIMARY KEY\<close> left out of an \<open>INSERT\<close> gets one more than the largest id in
  the table, and 1 in an empty table.
\<close>

definition next_id :: "feedback_row list \<Rightarrow> nat" where
  "next_id rows = Suc (fold max (map row_id rows) 0)"

text \<open>The row an \<open>INSERT\<close> of three bound strings adds to the table.\<close>

definition new_row :: "world \<Rightarrow> jsstring \<Rightarrow> jsstring \<Rightarrow> jsstring \<Rightarrow> feedback_row" where
  "new_row w text sent summ =
     \<lparr>row_id = next_id (feedback w), customer_text = Some text,
      sentiment = Some sent, summary = Some summ\<rparr>"

text \<open>The outcome of the next statement, and the schedule after it.\<close>

definition next_outcome :: "world \<Rightarrow> db_outcome" where
  "next_outcome w = fst (run_statement (db_schedule w))"

definition later_outcomes :: "world \<Rightarrow> db_outcome list" where
  "later_outcomes w = snd (run_statement (db_schedule w))"

text \<open>
  \<^verbatim>\<open>env.DB.prepare("INSERT INTO feedback (customer_text, sentiment, summary) VALUES (?, ?, ?)")
        .bind(text, sentiment, summary).run()\<close>
  A statement that throws leaves the table as it was.
\<close>

definition db_insert ::
    "jsstring \<Rightarrow> jsstring \<Rightarrow> jsstring \<Rightarrow> world \<Rightarrow> (error + unit) \<times> world" where
  "db_insert text sent summ w =
     (case next_outcome w of
        Throws \<Rightarrow> (Inl DbError, w\<lparr>db_schedule := later_outcomes w\<rparr>)
      | Succeeds \<Rightarrow>
          (Inr (),
           w\<lparr>feedback := feedback w @ [new_row w text sent summ],
             db_schedule := later_outcomes w\<rparr>))"

text \<open>\<^verbatim>\<open>env.DB.prepare("SELECT * FROM feedback ORDER BY id DESC").all()\<close>\<close>

definition db_all :: "world \<Rightarrow> (error + feedback_row list) \<times> world" where
  "db_all w =
     (case next_outcome w of
        Throws \<Rightarrow> (Inl DbError, w\<lparr>db_schedule := later_outcomes w\<rparr>)
      | Succeeds \<Rightarrow>
          (Inr (rev (sort_key row_id (feedback w))), w\<lparr>db_schedule := later_outcomes w\<rparr>))"

text \<open>
  The request: its method, its URL and its form data, an association list from field
  names to values (\<open>None\<close> when \<open>request.formData()\<close> rejects). The source casts the field
  to \<open>string\<close>, so a value is a string; \<open>formData.get\<close> gives the first value of the name,
  or \<open>null\<close>.
\<close>

record request =
  http_method :: jsstring
  url :: jsstring
  form :: "(jsstring \<times> jsstring) list option"

record stats =
  positive :: nat
  negative :: nat
  neutral :: nat

text \<open>
  The response: the redirect with its target and status, or the dashboard page, which is
  represented by the values the HTML template interpolates.
\<close>

datatype response = Redirect jsstring nat | Dashboard "feedback_row list" stats

section \<open>Intake (\<open>src/index.ts\<close>, lines 17 to 49)\<close>

text \<open>
  The body of the \<open>try\<close> block: one model call, the parse, one insert.
  \<^verbatim>\<open>
  const aiResponse = await env.AI.run(..., { messages: [..., { role: 'user', content: text }] });
  const rawText = (aiResponse as any).response || "";
  ...
  await env.DB.prepare("INSERT ...").bind(text, sentiment, summary).run();
  \<close>
\<close>

definition try_block ::
    "(jsstring \<Rightarrow> ai_result) \<Rightarrow> jsstring \<Rightarrow> world \<Rightarrow> (error + unit) \<times> world" where
  "try_block AI text w =
     (let w1 = w\<lparr>ai_calls := ai_calls w @ [text]\<rparr>
      in case AI text of
           Rejects \<Rightarrow> (Inl AiError, w1)
         | Resolves resp \<Rightarrow>
             (let rawText = or_else resp [];
                  (sentiment, summary) = parse rawText
              in db_insert text sentiment summary w1))"

text \<open>
  \<^verbatim>\<open>
  if (text) {
    try { ... } catch (err) {
      await env.DB.prepare("INSERT ...").bind(text, "Error", "AI analysis failed").run();
    }
  }
  \<close>
  The insert of the \<open>catch\<close> block is outside any \<open>try\<close>: what it throws leaves the handler.
\<close>

definition ingest ::
    "(jsstring \<Rightarrow> ai_result) \<Rightarrow> jsstring option \<Rightarrow> world \<Rightarrow> (error + unit) \<times> world" where
  "ingest AI text w =
     (case text of
        None \<Rightarrow> (Inr (), w)
      | Some t \<Rightarrow>
          if truthy (Some t) then
            (case try_block AI t w of
               (Inr u, w') \<Rightarrow> (Inr (), w')
             | (Inl err, w') \<Rightarrow> db_insert t (js ''Error'') (js ''AI analysis failed'') w')
          else (Inr (), w))"


section \<open>Aggregate counts (\<open>src/index.ts\<close>, lines 60 to 62)\<close>

text \<open>
  \<^verbatim>\<open>results.filter((r: any) => (r.sentiment || '').includes('Positive')).length\<close>
\<close>

definition count_label :: "jsstring \<Rightarrow> feedback_row list \<Rightarrow> nat" where
  "count_label label results =
     length (filter (\<lambda>r. includes_str (or_else (sentiment r) []) label) results)"

definition summarize :: "feedback_row list \<Rightarrow> stats" where
  "summarize results =
     \<lparr>positive = count_label (js ''Positive'') results,
      negative = count_label (js ''Negative'') results,
      neutral = count_label (js ''Neutral'') results\<rparr>"

section \<open>The handler\<close>

definition fetch ::
    "(jsstring \<Rightarrow> ai_result) \<Rightarrow> request \<Rightarrow> world \<Rightarrow> (error + response) \<times> world" where
  "fetch AI req w =
     (if http_method req = js ''POST'' then
        (case form req of
           None \<Rightarrow> (Inl FormDataError, w)
         | Some formData \<Rightarrow>
             (case ingest AI (map_of formData (js ''feedback'')) w of
                (Inl err, w') \<Rightarrow> (Inl err, w')
              | (Inr u, w') \<Rightarrow> (Inr (Redirect (url req) 303), w')))
      else
        (case db_all w of
           (Inl err, w') \<Rightarrow> (Inl err, w')
         | (Inr results, w') \<Rightarrow> (Inr (Dashboard results (summarize results)), w')))"

section \<open>The seed data (\<open>schema.sql\<close>)\<close>

text \<open>
  \<^verbatim>\<open>INSERT INTO feedback (customer_text) VALUES (...), (...), (...)\<close> into the fresh table:
  three rows with ids 1 to 3 and neither sentiment nor summary.
\<close>

definition schema_seed :: "feedback_row list" where
  "schema_seed =
     [\<lparr>row_id = 1,
       customer_text = Some (js ''The login page keeps crashing when I use Firefox. It is super frustrating!''),
       sentiment = None, summary = None\<rparr>,
      \<lparr>row_id = 2,
       customer_text = Some (js ''I love the new dark mode, it looks amazing. Great job team!''),
       sentiment = None, summary = None\<rparr>,
      \<lparr>row_id = 3,
       customer_text = Some (js ''The API documentation is outdated and very confusing.''),
       sentiment = None, summary = None\<rparr>]"

section \<open>Facts about splitting\<close>

lemma split_from_unfold:
  "split_from sep cur s =
     (cur @ takeWhile (\<lambda>c. c \<noteq> sep) s) #
       (case dropWhile (\<lambda>c. c \<noteq> sep) s of [] \<Rightarrow> [] | _ # r \<Rightarrow> split_from sep [] r)"
  by (induction s arbitrary: cur) simp_all

lemma split_unfold:
  "split sep s =
     takeWhile (\<lambda>c. c \<noteq> sep) s #
       (case dropWhile (\<lambda>c. c \<noteq> sep) s of [] \<Rightarrow> [] | _ # r \<Rightarrow> split sep r)"
  unfolding split_def by (subst split_from_unfold) simp

lemma split_no_sep:
  assumes "sep \<notin> set s"
  shows "split sep s = [s]"
proof -
  from assms have tw: "takeWhile (\<lambda>c. c \<noteq> sep) s = s"
    by auto
  from assms have dw: "dropWhile (\<lambda>c. c \<noteq> sep) s = []"
    by auto
  show ?thesis
    by (subst split_unfold) (simp only: tw dw list.case)
qed

lemma split_append_sep:
  assumes "sep \<notin> set a"
  shows "split sep (a @ sep # r) = a # split sep r"
proof -
  from assms have tw: "takeWhile (\<lambda>c. c \<noteq> sep) (a @ sep # r) = a"
    by (simp add: takeWhile_append)
  from assms have dw: "dropWhile (\<lambda>c. c \<noteq> sep) (a @ sep # r) = sep # r"
    by (simp add: dropWhile_append)
  show ?thesis
    by (subst split_unfold) (simp add: tw dw)
qed

lemma split_not_Nil:
  "split sep s \<noteq> []"
  by (subst split_unfold) simp

lemma at_split_0:
  "at (split sep s) 0 = Some (takeWhile (\<lambda>c. c \<noteq> sep) s)"
  by (subst split_unfold) simp

lemma at_split_1:
  "at (split sep s) (Suc 0) =
     (case dropWhile (\<lambda>c. c \<noteq> sep) s of [] \<Rightarrow> None
      | _ # r \<Rightarrow> Some (takeWhile (\<lambda>c. c \<noteq> sep) r))"
proof (cases "dropWhile (\<lambda>c. c \<noteq> sep) s")
  case Nil
  show ?thesis
    by (subst split_unfold) (simp only: Nil list.case at.simps)
next
  case (Cons x r)
  have "split sep s = takeWhile (\<lambda>c. c \<noteq> sep) s # split sep r"
    by (subst split_unfold) (simp add: Cons)
  moreover have "at (split sep r) 0 = Some (takeWhile (\<lambda>c. c \<noteq> sep) r)"
    by (rule at_split_0)
  ultimately show ?thesis
    by (simp only: Cons list.case at.simps)
qed

lemma two_seps_decompose:
  assumes "2 \<le> count_list s sep"
  shows "\<exists>a b c. s = a @ sep # b @ sep # c \<and> sep \<notin> set a \<and> sep \<notin> set b"
proof -
  from assms have "sep \<in> set s"
    by (metis count_list_0_iff not_numeral_le_zero)
  then obtain a r where s: "s = a @ sep # r" and a: "sep \<notin> set a"
    by (meson split_list_first)
  from a have "count_list a sep = 0"
    by (simp add: count_list_0_iff)
  with assms s have "1 \<le> count_list r sep"
    by simp
  then have "sep \<in> set r"
    by (metis count_list_0_iff not_one_le_zero)
  then obtain b c where r: "r = b @ sep # c" and b: "sep \<notin> set b"
    by (meson split_list_first)
  from s r a b show ?thesis
    by blast
qed

lemma at_split_pipe_1:
  "at (split pipe raw) (Suc 0) = (if pipe \<in> set raw then Some (part1 raw) else None)"
proof (cases "dropWhile (\<lambda>c. c \<noteq> pipe) raw")
  case Nil
  then have "pipe \<notin> set raw"
    by auto
  with Nil show ?thesis
    by (simp only: at_split_1 Nil list.case if_False)
next
  case (Cons x r)
  then have "pipe \<in> set raw"
    by (metis (mono_tags, lifting) dropWhile_eq_Nil_conv list.distinct(1))
  moreover have "part1 raw = takeWhile (\<lambda>c. c \<noteq> pipe) r"
    by (simp add: part1_def after_first_pipe_def Cons)
  ultimately show ?thesis
    by (simp only: at_split_1 Cons list.case if_True)
qed

lemma part1_no_pipe:
  assumes "pipe \<notin> set raw"
  shows "part1 raw = []"
proof -
  from assms have "dropWhile (\<lambda>c. c \<noteq> pipe) raw = []"
    by auto
  then show ?thesis
    by (simp only: part1_def after_first_pipe_def drop_Nil takeWhile.simps)
qed

lemmas str_defs = js_def pipe_def is_trimmed_def is_white_space_def is_line_terminator_def
  trim_def trimStart_def trimEnd_def split_def parse_def before_first_pipe_def
  after_first_pipe_def part1_def

section \<open>Facts about the store and the intake\<close>

lemmas store_defs = db_insert_def db_all_def next_outcome_def later_outcomes_def new_row_def
  next_id_def

lemma ingest_falsy:
  "ingest AI None w = (Inr (), w)" "ingest AI (Some []) w = (Inr (), w)"
  by (simp_all add: ingest_def)

lemma db_insert_Succeeds:
  "next_outcome w = Succeeds \<Longrightarrow>
   db_insert text sent summ w =
     (Inr (), w\<lparr>feedback := feedback w @ [new_row w text sent summ],
               db_schedule := later_outcomes w\<rparr>)"
  by (simp add: db_insert_def)

lemma db_insert_Throws:
  "next_outcome w = Throws \<Longrightarrow>
   db_insert text sent summ w = (Inl DbError, w\<lparr>db_schedule := later_outcomes w\<rparr>)"
  by (simp add: db_insert_def)

lemma next_outcome_ai_calls [simp]:
  "next_outcome (w\<lparr>ai_calls := c\<rparr>) = next_outcome w"
  "later_outcomes (w\<lparr>ai_calls := c\<rparr>) = later_outcomes w"
  "new_row (w\<lparr>ai_calls := c\<rparr>) text sent summ = new_row w text sent summ"
  by (simp_all add: next_outcome_def later_outcomes_def new_row_def)

lemma try_block_Rejects:
  "AI text = Rejects \<Longrightarrow>
   try_block AI text w = (Inl AiError, w\<lparr>ai_calls := ai_calls w @ [text]\<rparr>)"
  by (simp add: try_block_def)

lemma try_block_Resolves:
  "AI text = Resolves resp \<Longrightarrow>
   try_block AI text w =
     db_insert text (fst (parse (or_else resp []))) (snd (parse (or_else resp [])))
       (w\<lparr>ai_calls := ai_calls w @ [text]\<rparr>)"
  by (simp add: try_block_def Let_def split: prod.splits)

lemma ingest_truthy:
  "text \<noteq> [] \<Longrightarrow>
   ingest AI (Some text) w =
     (case try_block AI text w of
        (Inr u, w') \<Rightarrow> (Inr (), w')
      | (Inl err, w') \<Rightarrow> db_insert text (js ''Error'') (js ''AI analysis failed'') w')"
  by (simp add: ingest_def)

lemma db_insert_rows:
  "feedback (snd (db_insert text sent summ w)) =
     feedback w @ (if next_outcome w = Succeeds then [new_row w text sent summ] else [])"
  by (cases "next_outcome w") (simp_all add: db_insert_def)

lemma db_insert_result:
  "fst (db_insert text sent summ w) =
     (if next_outcome w = Succeeds then Inr () else Inl DbError)"
  by (cases "next_outcome w") (simp_all add: db_insert_def)

lemma ingest_completed_one_row:
  assumes "text \<noteq> []" and "fst (ingest AI (Some text) w) = Inr ()"
  shows "\<exists>sent summ. feedback (snd (ingest AI (Some text) w)) =
           feedback w @ [new_row w text sent summ]"
proof (cases "AI text")
  case Rejects
  with assms show ?thesis
    by (cases "next_outcome w")
       (auto simp: ingest_truthy try_block_Rejects db_insert_Succeeds db_insert_Throws)
next
  case (Resolves resp)
  show ?thesis
  proof (cases "next_outcome w")
    case Succeeds
    with assms Resolves show ?thesis
      by (auto simp: ingest_truthy try_block_Resolves db_insert_Succeeds)
  next
    case Throws
    let ?w1 = "w\<lparr>ai_calls := ai_calls w @ [text], db_schedule := later_outcomes w\<rparr>"
    have nr: "new_row ?w1 text (js ''Error'') (js ''AI analysis failed'') =
                new_row w text (js ''Error'') (js ''AI analysis failed'')"
      by (simp add: new_row_def)
    have i: "ingest AI (Some text) w = db_insert text (js ''Error'') (js ''AI analysis failed'') ?w1"
      using assms(1) Resolves Throws
      by (simp add: ingest_truthy try_block_Resolves db_insert_Throws)
    with assms(2) have "next_outcome ?w1 = Succeeds"
      by (simp add: db_insert_result split: if_splits)
    with i nr show ?thesis
      by (auto simp: db_insert_Succeeds)
  qed
qed

section \<open>Facts about substring search\<close>

lemma includes_str_sublist:
  "includes_str s needle = sublist needle s"
  by (induction s) (simp_all add: sublist_Cons_right)

lemma includes_str_iff:
  "includes_str s needle = (\<exists>ps ss. s = ps @ needle @ ss)"
  by (simp add: includes_str_sublist sublist_def)

lemma count_label_iff:
  "count_label label rs =
     length (filter (\<lambda>r. \<exists>ps ss. or_else (sentiment r) [] = ps @ label @ ss) rs)"
  by (simp add: count_label_def includes_str_iff)

section \<open>The parser\<close>

text \<open>
  C1 (as amended). A reply with two or more separators is cut at every separator, not only
  at the first: its first two parts are the text before the first separator and the text
  between the first and the second separator, and what follows the second separator is
  split again. The summary is the text between the first and the second separator,
  trimmed, when that text is not empty, and the whole untrimmed reply when it is empty.
\<close>

theorem parse_multi_pipe_summary:
  assumes "2 \<le> count_list raw pipe"
  shows "\<exists>a b c. raw = a @ pipe # b @ pipe # c \<and> pipe \<notin> set a \<and> pipe \<notin> set b
           \<and> split pipe raw = a # b # split pipe c
           \<and> snd (parse raw) = (if b = [] then raw else trim b)"
proof -
  from two_seps_decompose [OF assms] obtain a b c
    where raw: "raw = a @ pipe # b @ pipe # c" and a: "pipe \<notin> set a" and b: "pipe \<notin> set b"
    by blast
  have sp: "split pipe raw = a # b # split pipe c"
    by (simp add: raw split_append_sep [OF a] split_append_sep [OF b])
  have "snd (parse raw) = (if b = [] then raw else trim b)"
    by (simp add: parse_def sp)
  with raw a b sp show ?thesis
    by blast
qed

theorem parse_multi_pipe_summary_witness:
  "2 \<le> count_list (js ''Positive|good|bad'') pipe \<and>
   (\<exists>a b c. js ''Positive|good|bad'' = a @ pipe # b @ pipe # c
           \<and> pipe \<notin> set a \<and> pipe \<notin> set b
           \<and> split pipe (js ''Positive|good|bad'') = a # b # split pipe c
           \<and> snd (parse (js ''Positive|good|bad'')) =
               (if b = [] then js ''Positive|good|bad'' else trim b))"
proof -
  have h: "2 \<le> count_list (js ''Positive|good|bad'') pipe"
    by (simp add: js_def pipe_def)
  from h parse_multi_pipe_summary [OF h] show ?thesis
    by (rule conjI)
qed

text \<open>
  C1 as stated fails: the reply \<open>Positive|good|bad\<close> has two separators, everything after
  the first one is \<open>good|bad\<close>, and the summary is \<open>good\<close>.
\<close>

theorem parse_tail_verbatim_counterexample:
  "2 \<le> count_list (js ''Positive|good|bad'') pipe
   \<and> after_first_pipe (js ''Positive|good|bad'') = js ''good|bad''
   \<and> snd (parse (js ''Positive|good|bad'')) = js ''good''
   \<and> snd (parse (js ''Positive|good|bad'')) \<noteq> after_first_pipe (js ''Positive|good|bad'')"
  by (simp add: str_defs)

text \<open>
  C2 (as amended). The sentiment is the text before the first separator, trimmed, when
  that text is not the empty string, and \<open>Neutral\<close> when it is the empty string. The test
  is made before trimming, so a text of white space only gives the empty sentiment.
\<close>

theorem parse_sentiment:
  "fst (parse raw) =
     (if before_first_pipe raw = [] then js ''Neutral'' else trim (before_first_pipe raw))"
  by (simp add: parse_def at_split_0 before_first_pipe_def)

text \<open>
  C2 as stated fails: in the reply \<open>" |x"\<close> the text before the separator is empty after
  trimming, and the sentiment is the empty string, not \<open>Neutral\<close>.
\<close>

theorem parse_sentiment_blank_counterexample:
  "trim (before_first_pipe (js '' |x'')) = []
   \<and> fst (parse (js '' |x'')) = []
   \<and> fst (parse (js '' |x'')) \<noteq> js ''Neutral''"
  by (simp add: str_defs)

text \<open>
  C3 (as amended). The second part of the split is present exactly when the reply has a
  separator, and is then the text between the first separator and the next one. The
  summary is that text, trimmed, when it is present and not the empty string before
  trimming, and the whole untrimmed reply otherwise. In particular the reply
  \<open>" Neutral |  "\<close> gives the sentiment \<open>Neutral\<close> and the empty summary.
\<close>

theorem parse_summary:
  "at (split pipe raw) 1 = (if pipe \<in> set raw then Some (part1 raw) else None)
   \<and> snd (parse raw) = (if part1 raw = [] then raw else trim (part1 raw))
   \<and> parse (js '' Neutral |  '') = (js ''Neutral'', [])"
proof -
  have "snd (parse raw) = (if part1 raw = [] then raw else trim (part1 raw))"
    by (simp add: parse_def Let_def at_split_pipe_1 part1_no_pipe)
  moreover have "parse (js '' Neutral |  '') = (js ''Neutral'', [])"
    by (simp add: str_defs)
  ultimately show ?thesis
    using at_split_pipe_1 [of raw] by simp
qed

text \<open>
  C3 as stated fails: for the reply \<open>" Neutral |  "\<close> the text after the separator is empty
  after trimming, yet the summary is the empty string and not the reply.
\<close>

theorem parse_summary_blank_counterexample:
  "trim (after_first_pipe (js '' Neutral |  '')) = []
   \<and> snd (parse (js '' Neutral |  '')) = []
   \<and> parse (js '' Neutral |  '') \<noteq> (js ''Neutral'', js '' Neutral |  '')"
  by (simp add: str_defs)

section \<open>The intake\<close>

text \<open>
  C4. The claim: the intake never raises to its caller; when the classification fails and
  the insert of the error record fails too, the second failure is swallowed and the caller
  still gets the 303 redirect. The handler does not do this: the insert of the \<open>catch\<close>
  block is unguarded, so for a submission \<open>X\<close> with the model call rejecting and the
  database throwing on the insert, \<open>fetch\<close> rejects with the database's error and sends no
  redirect.
\<close>

theorem fetch_fallback_write_failure_escapes:
  "fetch (\<lambda>t. Rejects)
     \<lparr>http_method = js ''POST'', url = js ''https://feedback.example/'',
      form = Some [(js ''feedback'', js ''X'')]\<rparr>
     \<lparr>feedback = [], db_schedule = [Throws], ai_calls = []\<rparr> =
   (Inl DbError, \<lparr>feedback = [], db_schedule = [], ai_calls = [js ''X'']\<rparr>)"
  by (simp add: fetch_def ingest_def try_block_def store_defs js_def)



text \<open>
  C6. When the field \<open>feedback\<close> of the form is missing or is the empty string, a
  \<open>POST\<close> is answered with the 303 redirect to the request's URL and leaves the world as
  it was: no row is written and the model is not called.
\<close>

theorem fetch_empty_feedback:
  assumes "http_method req = js ''POST''" and "form req = Some formData"
    and "map_of formData (js ''feedback'') = None \<or> map_of formData (js ''feedback'') = Some []"
  shows "fetch AI req w = (Inr (Redirect (url req) 303), w)"
  using assms by (auto simp: fetch_def ingest_falsy)

theorem fetch_empty_feedback_witness:
  "http_method \<lparr>http_method = js ''POST'', url = js ''https://feedback.example/'',
                form = Some [(js ''feedback'', [])]\<rparr> = js ''POST''
   \<and> form \<lparr>http_method = js ''POST'', url = js ''https://feedback.example/'',
            form = Some [(js ''feedback'', [])]\<rparr> = Some [(js ''feedback'', [])]
   \<and> (map_of [(js ''feedback'', [])] (js ''feedback'') = None
        \<or> map_of [(js ''feedback'', [])] (js ''feedback'') = Some [])
   \<and> fetch (\<lambda>t. Rejects)
         \<lparr>http_method = js ''POST'', url = js ''https://feedback.example/'',
          form = Some [(js ''feedback'', [])]\<rparr>
         \<lparr>feedback = [], db_schedule = [Throws], ai_calls = []\<rparr> =
       (Inr (Redirect (js ''https://feedback.example/'') 303),
        \<lparr>feedback = [], db_schedule = [Throws], ai_calls = []\<rparr>)"
proof -
  let ?req = "\<lparr>http_method = js ''POST'', url = js ''https://feedback.example/'',
                form = Some [(js ''feedback'', [])]\<rparr>"
  have h1: "http_method ?req = js ''POST''"
    by simp
  have h2: "form ?req = Some [(js ''feedback'', [])]"
    by simp
  have h3: "map_of [(js ''feedback'', [])] (js ''feedback'') = None
        \<or> map_of [(js ''feedback'', [])] (js ''feedback'') = Some []"
    by simp
  from h1 h2 h3 fetch_empty_feedback [OF h1 h2 h3] show ?thesis
    by simp
qed



text \<open>
  C9. When the model call resolves to an object whose \<open>response\<close> is missing or empty and
  the insert succeeds, the raw text is the empty string and the row written has the
  sentiment \<open>Neutral\<close> and the empty summary. The row does not carry the \<open>Error\<close> marker,
  it counts as neutral in the aggregate, and its sentiment and summary are those of the
  reply \<open>"Neutral| "\<close>.
\<close>

theorem ingest_vacuous_response:
  assumes "text \<noteq> []"
    and "AI text = Resolves None \<or> AI text = Resolves (Some [])"
    and "next_outcome w = Succeeds"
  shows "ingest AI (Some text) w =
           (Inr (),
            w\<lparr>ai_calls := ai_calls w @ [text],
              feedback := feedback w @ [new_row w text (js ''Neutral'') []],
              db_schedule := later_outcomes w\<rparr>)
       \<and> sentiment (new_row w text (js ''Neutral'') []) \<noteq> Some (js ''Error'')
       \<and> neutral (summarize [new_row w text (js ''Neutral'') []]) = 1
       \<and> parse (js ''Neutral| '') = (js ''Neutral'', [])"
proof -
  have p: "parse [] = (js ''Neutral'', [])"
    by (simp add: parse_def split_def)
  from assms(2) obtain resp where r: "AI text = Resolves resp" and e: "or_else resp [] = []"
    by auto
  have "ingest AI (Some text) w =
           (Inr (),
            w\<lparr>ai_calls := ai_calls w @ [text],
              feedback := feedback w @ [new_row w text (js ''Neutral'') []],
              db_schedule := later_outcomes w\<rparr>)"
    using assms(1,3) r by (simp add: ingest_truthy try_block_Resolves e p db_insert_Succeeds)
  moreover have "sentiment (new_row w text (js ''Neutral'') []) \<noteq> Some (js ''Error'')"
    by (simp add: new_row_def js_def)
  moreover have "neutral (summarize [new_row w text (js ''Neutral'') []]) = 1"
    by (simp add: summarize_def count_label_def new_row_def js_def)
  moreover have "parse (js ''Neutral| '') = (js ''Neutral'', [])"
    by (simp add: str_defs)
  ultimately show ?thesis
    by (simp only: simp_thms)
qed

theorem ingest_vacuous_response_witness:
  "js ''ok'' \<noteq> []
   \<and> ((\<lambda>t. Resolves None) (js ''ok'') = Resolves None
        \<or> (\<lambda>t. Resolves None) (js ''ok'') = Resolves (Some []))
   \<and> next_outcome \<lparr>feedback = [], db_schedule = [], ai_calls = []\<rparr> = Succeeds
   \<and> ingest (\<lambda>t. Resolves None) (Some (js ''ok''))
         \<lparr>feedback = [], db_schedule = [], ai_calls = []\<rparr> =
       (Inr (),
        \<lparr>feedback = [\<lparr>row_id = 1, customer_text = Some (js ''ok''),
                      sentiment = Some (js ''Neutral''), summary = Some []\<rparr>],
         db_schedule = [], ai_calls = [js ''ok'']\<rparr>)"
proof -
  have h1: "js ''ok'' \<noteq> []"
    by (simp add: js_def)
  have h2: "(\<lambda>t. Resolves None) (js ''ok'') = Resolves None
        \<or> (\<lambda>t. Resolves None) (js ''ok'') = Resolves (Some [])"
    by simp
  have h3: "next_outcome \<lparr>feedback = [], db_schedule = [], ai_calls = []\<rparr> = Succeeds"
    by (simp add: next_outcome_def)
  show ?thesis
    using h1 h3 ingest_vacuous_response [OF h1 h2 h3]
    by (simp add: new_row_def next_id_def later_outcomes_def)
qed

section \<open>The aggregate counts\<close>

text \<open>
  C8. For every list of rows, each of the three counts is the number of rows whose
  sentiment (the empty string for \<open>NULL\<close>) contains the label as a contiguous run of code
  units. The match is by containment, not equality: the sentiments \<open>Positive\<close>,
  \<open>Very Positive indeed\<close>, \<open>Negative\<close>, \<open>Error\<close> give the counts 2, 1, 0. The buckets
  are not exclusive: \<open>Positive or Negative\<close> counts in two of them. The match is
  case-sensitive: \<open>positive\<close> counts in none.
\<close>

theorem summarize_substring_counts:
  "positive (summarize rs) =
     length (filter (\<lambda>r. \<exists>ps ss. or_else (sentiment r) [] = ps @ js ''Positive'' @ ss) rs)
   \<and> negative (summarize rs) =
     length (filter (\<lambda>r. \<exists>ps ss. or_else (sentiment r) [] = ps @ js ''Negative'' @ ss) rs)
   \<and> neutral (summarize rs) =
     length (filter (\<lambda>r. \<exists>ps ss. or_else (sentiment r) [] = ps @ js ''Neutral'' @ ss) rs)
   \<and> summarize
       [\<lparr>row_id = i1, customer_text = t1, sentiment = Some (js ''Positive''), summary = m1\<rparr>,
        \<lparr>row_id = i2, customer_text = t2, sentiment = Some (js ''Very Positive indeed''),
         summary = m2\<rparr>,
        \<lparr>row_id = i3, customer_text = t3, sentiment = Some (js ''Negative''), summary = m3\<rparr>,
        \<lparr>row_id = i4, customer_text = t4, sentiment = Some (js ''Error''), summary = m4\<rparr>] =
       \<lparr>positive = 2, negative = 1, neutral = 0\<rparr>
   \<and> summarize
       [\<lparr>row_id = i1, customer_text = t1, sentiment = Some (js ''Positive or Negative''),
         summary = m1\<rparr>] =
       \<lparr>positive = 1, negative = 1, neutral = 0\<rparr>
   \<and> summarize
       [\<lparr>row_id = i1, customer_text = t1, sentiment = Some (js ''positive''), summary = m1\<rparr>] =
       \<lparr>positive = 0, negative = 0, neutral = 0\<rparr>"
proof -
  have "positive (summarize rs) =
     length (filter (\<lambda>r. \<exists>ps ss. or_else (sentiment r) [] = ps @ js ''Positive'' @ ss) rs)"
    by (simp add: summarize_def count_label_iff)
  moreover have "negative (summarize rs) =
     length (filter (\<lambda>r. \<exists>ps ss. or_else (sentiment r) [] = ps @ js ''Negative'' @ ss) rs)"
    by (simp add: summarize_def count_label_iff)
  moreover have "neutral (summarize rs) =
     length (filter (\<lambda>r. \<exists>ps ss. or_else (sentiment r) [] = ps @ js ''Neutral'' @ ss) rs)"
    by (simp add: summarize_def count_label_iff)
  moreover have "summarize
       [\<lparr>row_id = i1, customer_text = t1, sentiment = Some (js ''Positive''), summary = m1\<rparr>,
        \<lparr>row_id = i2, customer_text = t2, sentiment = Some (js ''Very Positive indeed''),
         summary = m2\<rparr>,
        \<lparr>row_id = i3, customer_text = t3, sentiment = Some (js ''Negative''), summary = m3\<rparr>,
        \<lparr>row_id = i4, customer_text = t4, sentiment = Some (js ''Error''), summary = m4\<rparr>] =
       \<lparr>positive = 2, negative = 1, neutral = 0\<rparr>"
    by (simp add: summarize_def count_label_def js_def)
  moreover have "summarize
       [\<lparr>row_id = i1, customer_text = t1, sentiment = Some (js ''Positive or Negative''),
         summary = m1\<rparr>] =
       \<lparr>positive = 1, negative = 1, neutral = 0\<rparr>"
    by (simp add: summarize_def count_label_def js_def)
  moreover have "summarize
       [\<lparr>row_id = i1, customer_text = t1, sentiment = Some (js ''positive''), summary = m1\<rparr>] =
       \<lparr>positive = 0, negative = 0, neutral = 0\<rparr>"
    by (simp add: summarize_def count_label_def js_def)
  ultimately show ?thesis
    by (simp only: simp_thms)
qed

text \<open>
  C10. A row whose sentiment is \<open>NULL\<close> counts toward no bucket: the aggregate of a list
  is unchanged by adding such a row. Such rows exist: the three rows of the seed data
  have no sentiment, and a \<open>GET\<close> on the seeded table answers with the dashboard of these
  rows, newest first, and the counts 0, 0, 0.
\<close>

theorem summarize_null_sentiment:
  "summarize (\<lparr>row_id = i, customer_text = t, sentiment = None, summary = m\<rparr> # rs) =
     summarize rs
   \<and> map sentiment schema_seed = [None, None, None]
   \<and> summarize schema_seed = \<lparr>positive = 0, negative = 0, neutral = 0\<rparr>
   \<and> fetch AI \<lparr>http_method = js ''GET'', url = u, form = None\<rparr>
        \<lparr>feedback = schema_seed, db_schedule = [], ai_calls = []\<rparr> =
      (Inr (Dashboard (rev schema_seed) \<lparr>positive = 0, negative = 0, neutral = 0\<rparr>),
       \<lparr>feedback = schema_seed, db_schedule = [], ai_calls = []\<rparr>)"
proof -
  have a: "summarize (\<lparr>row_id = i, customer_text = t, sentiment = None, summary = m\<rparr> # rs) =
     summarize rs"
    by (simp add: summarize_def count_label_def js_def)
  have b: "map sentiment schema_seed = [None, None, None]"
    by (simp add: schema_seed_def)
  have c: "summarize schema_seed = \<lparr>positive = 0, negative = 0, neutral = 0\<rparr>"
    by (simp add: schema_seed_def summarize_def count_label_def js_def)
  have c': "summarize (rev schema_seed) = \<lparr>positive = 0, negative = 0, neutral = 0\<rparr>"
    by (simp add: schema_seed_def summarize_def count_label_def js_def)
  have m: "js ''GET'' \<noteq> js ''POST''"
    by (simp add: js_def)
  have s: "rev (sort_key row_id schema_seed) = rev schema_seed"
    by (simp add: schema_seed_def)
  have d: "fetch AI \<lparr>http_method = js ''GET'', url = u, form = None\<rparr>
        \<lparr>feedback = schema_seed, db_schedule = [], ai_calls = []\<rparr> =
      (Inr (Dashboard (rev schema_seed) \<lparr>positive = 0, negative = 0, neutral = 0\<rparr>),
       \<lparr>feedback = schema_seed, db_schedule = [], ai_calls = []\<rparr>)"
    by (simp add: fetch_def m db_all_def next_outcome_def later_outcomes_def s)
       (simp add: c')
  from a b c d show ?thesis
    by (simp only: simp_thms)
qed

end
